theory Spec2Isabelle
  imports Main "HOL-Library.Sublist"
begin

section \<open>Python objects and exceptions\<close>

text \<open>
  The exceptions that \<^verbatim>\<open>markers/uncollect.py\<close> can meet or raise. The two
  \<^verbatim>\<open>raise Exception(...)\<close> statements of \<^verbatim>\<open>uncollectif\<close> are kept apart by
  their message templates:
  \<^item> \<open>FixtureNotInPrototype func_name missing_argnames\<close> is
    \<^verbatim>\<open>"You asked for a fixture which wasn't in the function {} prototype {}"\<close>;
    \<^verbatim>\<open>missing_argnames\<close> is built from a Python set, so its order is not fixed and it
    is kept as a set;
  \<^item> \<open>FixtureNotReady func_name\<close> is
    \<^verbatim>\<open>"Failed to uncollect {}, best guess a fixture wasn't ready"\<close>.
\<close>

datatype py_error =
    IndexError
  | TypeError
  | KeyError
  | FixtureNotInPrototype string "string set"
  | FixtureNotReady string

text \<open>
  What a marker can hold as a positional argument. The type \<open>'v\<close> is the type of
  fixture values. Only three things are ever done to such an object: it is handed to
  \<^verbatim>\<open>inspect.getargspec\<close>, it is converted with \<^verbatim>\<open>bool\<close>, and it is called with
  positional arguments; the result of a call is only ever tested for truth, so a call
  yields the truth value of what the callable returns, or the exception it raises.
  \<^item> \<open>PyFunction names body\<close>: a plain Python function whose positional parameters
    are \<open>names\<close>;
  \<^item> \<open>PyCallable truth body\<close>: a callable that is not a plain function
    (a \<^verbatim>\<open>functools.partial\<close>, an instance with \<^verbatim>\<open>__call__\<close>);
  \<^item> \<open>PyValue truth\<close>: any other object, such as \<^verbatim>\<open>True\<close> or \<^verbatim>\<open>False\<close>.
\<close>

datatype 'v pyobj =
    PyFunction "string list" "'v list \<Rightarrow> py_error + bool"
  | PyCallable bool "'v list \<Rightarrow> py_error + bool"
  | PyValue bool

text \<open>\<^verbatim>\<open>inspect.getargspec(f).args\<close>: a \<^verbatim>\<open>TypeError\<close> unless \<open>f\<close> is a plain function.\<close>

fun getargspec_args :: "'v pyobj \<Rightarrow> py_error + string list" where
  "getargspec_args (PyFunction names body) = Inr names"
| "getargspec_args (PyCallable truth body) = Inl TypeError"
| "getargspec_args (PyValue truth) = Inl TypeError"

text \<open>\<^verbatim>\<open>bool(f)\<close>: a function object is always true.\<close>

fun py_bool :: "'v pyobj \<Rightarrow> bool" where
  "py_bool (PyFunction names body) = True"
| "py_bool (PyCallable truth body) = truth"
| "py_bool (PyValue truth) = truth"

text \<open>\<^verbatim>\<open>f(*args)\<close>: the truth value of the result, or the exception raised.\<close>

fun py_call :: "'v pyobj \<Rightarrow> 'v list \<Rightarrow> py_error + bool" where
  "py_call (PyFunction names body) argvals =
     (if length argvals = length names then body argvals else Inl TypeError)"
| "py_call (PyCallable truth body) argvals = body argvals"
| "py_call (PyValue truth) argvals = Inl TypeError"

text \<open>\<^verbatim>\<open>xs[0]\<close>: an \<^verbatim>\<open>IndexError\<close> on the empty sequence.\<close>

fun index0 :: "'a list \<Rightarrow> py_error + 'a" where
  "index0 [] = Inl IndexError"
| "index0 (x # xs) = Inr x"

section \<open>Markers and test items\<close>

text \<open>
  \<^verbatim>\<open>item.get_marker\<close> gives one of two shapes (pytest issue 2400): a
  \<^verbatim>\<open>MarkDecorator\<close>, or an object that is iterated with \<^verbatim>\<open>list(...)\<close> and yields
  marker-like objects. Both have \<^verbatim>\<open>.args\<close> and \<^verbatim>\<open>.kwargs\<close>; the objects yielded by
  the iteration are only ever asked for their \<^verbatim>\<open>.args\<close>, so each is kept as its
  argument list. Keyword values are strings (the only key read is \<^verbatim>\<open>'reason'\<close>).
\<close>

datatype 'v marker =
    MarkDecorator "'v pyobj list" "string \<rightharpoonup> string"
  | MarkInfo "'v pyobj list" "string \<rightharpoonup> string" "'v pyobj list list"

fun marker_args :: "'v marker \<Rightarrow> 'v pyobj list" where
  "marker_args (MarkDecorator as kw) = as"
| "marker_args (MarkInfo as kw marks) = as"

fun marker_kwargs :: "'v marker \<Rightarrow> (string \<rightharpoonup> string)" where
  "marker_kwargs (MarkDecorator as kw) = kw"
| "marker_kwargs (MarkInfo as kw marks) = kw"

text \<open>
  \<^verbatim>\<open>
  def get_uncollect_function(marker_or_markdecorator):
      if isinstance(marker_or_markdecorator, MARKDECORATOR_TYPE):
          return marker_or_markdecorator.args[0]
      else:
          return list(marker_or_markdecorator)[0].args[0]
  \<close>
\<close>

fun get_uncollect_function :: "'v marker \<Rightarrow> py_error + 'v pyobj" where
  "get_uncollect_function (MarkDecorator as kw) = index0 as"
| "get_uncollect_function (MarkInfo as kw marks) =
     (case index0 marks of Inl e \<Rightarrow> Inl e | Inr first_mark \<Rightarrow> index0 first_mark)"

text \<open>\<^verbatim>\<open>marker.kwargs.get('reason', 'No reason given')\<close>\<close>

definition reason_of :: "'v marker \<Rightarrow> string" where
  "reason_of marker =
     (case marker_kwargs marker ''reason'' of
        None \<Rightarrow> ''No reason given''
      | Some r \<Rightarrow> r)"

text \<open>
  A test item, with what the module reads from it:
  \<^item> \<open>name\<close>: \<^verbatim>\<open>item.name\<close>;
  \<^item> \<open>get_marker\<close>: \<^verbatim>\<open>item.get_marker(name)\<close>, \<^verbatim>\<open>None\<close> when the item has no such
    marker; a marker object is always true in a condition;
  \<^item> \<open>holder\<close>: \<^verbatim>\<open>item.config.pluginmanager.getplugin('appliance-holder')\<close>, as the
    \<^verbatim>\<open>held_appliance\<close> of the plugin when one is registered;
  \<^item> \<open>extract_fixtures_values\<close>: the result of
    \<^verbatim>\<open>cfme.utils.pytest_shortcuts.extract_fixtures_values(item)\<close>, a dictionary or the
    exception the call raises;
  \<^item> \<open>funcargnames\<close>: \<^verbatim>\<open>item._request.funcargnames\<close>.
\<close>

record 'v item =
  name :: string
  get_marker :: "string \<rightharpoonup> 'v marker"
  holder :: "'v option"
  extract_fixtures_values :: "py_error + (string \<rightharpoonup> 'v)"
  funcargnames :: "string list"

section \<open>The evaluator \<^verbatim>\<open>uncollectif\<close>\<close>

text \<open>\<^verbatim>\<open>[values[arg] for arg in arg_names]\<close>: a \<^verbatim>\<open>KeyError\<close> at the first missing key.\<close>

fun lookup_all :: "(string \<rightharpoonup> 'v) \<Rightarrow> string list \<Rightarrow> py_error + 'v list" where
  "lookup_all vals [] = Inr []"
| "lookup_all vals (arg # rest) =
     (case vals arg of
        None \<Rightarrow> Inl KeyError
      | Some v \<Rightarrow>
          (case lookup_all vals rest of Inl e \<Rightarrow> Inl e | Inr vs \<Rightarrow> Inr (v # vs)))"

text \<open>
  \<^verbatim>\<open>
  holder = item.config.pluginmanager.getplugin('appliance-holder')
  if holder:
      global_vars = {'appliance': holder.held_appliance}
  else:
      global_vars = {}
  \<close>
\<close>

definition global_vars :: "'v item \<Rightarrow> (string \<rightharpoonup> 'v)" where
  "global_vars item =
     (case holder item of
        Some held_appliance \<Rightarrow> [''appliance'' \<mapsto> held_appliance]
      | None \<Rightarrow> Map.empty)"

text \<open>
  The body of the second \<^verbatim>\<open>try\<close> block. \<open>Inr None\<close> is the bare \<^verbatim>\<open>return\<close>,
  \<open>Inr (Some args)\<close> the argument list, \<open>Inl e\<close> an exception raised inside the block.
  \<^verbatim>\<open>
  values = extract_fixtures_values(item)
  values.update(global_vars)
  # The test has already been uncollected
  if arg_names and not values:
      return
  args = [values[arg] for arg in arg_names]
  \<close>
\<close>

definition bind_args :: "'v item \<Rightarrow> string list \<Rightarrow> py_error + 'v list option" where
  "bind_args item arg_names =
     (case extract_fixtures_values item of
        Inl e \<Rightarrow> Inl e
      | Inr fixture_values \<Rightarrow>
          (let vals = fixture_values ++ global_vars item in
           if arg_names \<noteq> [] \<and> vals = Map.empty then Inr None
           else (case lookup_all vals arg_names of
                   Inl e \<Rightarrow> Inl e
                 | Inr argvals \<Rightarrow> Inr (Some argvals))))"

text \<open>
  The \<^verbatim>\<open>except KeyError\<close> handler: the exception it raises.
  \<^verbatim>\<open>
  missing_argnames = list(set(arg_names) - set(item._request.funcargnames))
  func_name = item.name
  if missing_argnames:
      raise Exception("You asked for a fixture which wasn't in the function {} "
                      "prototype {}".format(func_name, missing_argnames))
  else:
      raise Exception("Failed to uncollect {}, best guess a fixture wasn't "
                      "ready".format(func_name))
  \<close>
\<close>

definition key_error_handler :: "'v item \<Rightarrow> string list \<Rightarrow> py_error" where
  "key_error_handler item arg_names =
     (let missing_argnames = set arg_names - set (funcargnames item);
          func_name = name item
      in if missing_argnames \<noteq> {} then FixtureNotInPrototype func_name missing_argnames
         else FixtureNotReady func_name)"

text \<open>\<^verbatim>\<open>inspect.getargspec(get_uncollect_function(marker)).args\<close>\<close>

definition declared_arg_names :: "'v marker \<Rightarrow> py_error + string list" where
  "declared_arg_names marker =
     (case get_uncollect_function marker of
        Inl e \<Rightarrow> Inl e
      | Inr f \<Rightarrow> getargspec_args f)"

text \<open>
  \<^verbatim>\<open>uncollectif(item)\<close> returns \<^verbatim>\<open>True\<close>, \<^verbatim>\<open>False\<close> or \<^verbatim>\<open>None\<close> (the bare
  \<^verbatim>\<open>return\<close>), or raises. The calls to the logger are not modelled.
\<close>

definition uncollectif :: "'v item \<Rightarrow> py_error + bool option" where
  "uncollectif item =
     (case get_marker item ''uncollectif'' of
        None \<Rightarrow> Inr (Some True)
      | Some marker \<Rightarrow>
          (case declared_arg_names marker of
             Inl e \<Rightarrow>
               (if e = TypeError then
                  (case index0 (marker_args marker) of
                     Inl e' \<Rightarrow> Inl e'
                   | Inr a \<Rightarrow> Inr (Some (\<not> py_bool a)))
                else Inl e)
           | Inr arg_names \<Rightarrow>
               (case bind_args item arg_names of
                  Inl e \<Rightarrow>
                    (if e = KeyError then Inl (key_error_handler item arg_names) else Inl e)
                | Inr None \<Rightarrow> Inr None
                | Inr (Some argvals) \<Rightarrow>
                    (case index0 (marker_args marker) of
                       Inl e \<Rightarrow> Inl e
                     | Inr p \<Rightarrow>
                         (case py_call p argvals of
                            Inl e \<Rightarrow> Inl e
                          | Inr retval \<Rightarrow> Inr (Some (\<not> retval)))))))"

section \<open>The collection hook\<close>

text \<open>The truth value of what \<^verbatim>\<open>uncollectif\<close> returns: \<^verbatim>\<open>None\<close> is false.\<close>

fun truthy :: "bool option \<Rightarrow> bool" where
  "truthy None = False"
| "truthy (Some b) = b"

text \<open>
  The condition \<^verbatim>\<open>item.get_marker('uncollect') or not uncollectif(item)\<close>: the
  right operand is evaluated only when the left one is false.
\<close>

definition uncollect_condition :: "'v item \<Rightarrow> py_error + bool" where
  "uncollect_condition item =
     (case get_marker item ''uncollect'' of
        Some uncollect \<Rightarrow> Inr True
      | None \<Rightarrow>
          (case uncollectif item of
             Inl e \<Rightarrow> Inl e
           | Inr r \<Rightarrow> Inr (\<not> truthy r)))"

text \<open>
  \<^verbatim>\<open>
  uncollect = item.get_marker('uncollect')
  marker = uncollect or item.get_marker('uncollectif')
  if marker:
      reason = marker.kwargs.get('reason', "No reason given")
  else:
      reason = None
  \<close>
\<close>

definition audit_reason :: "'v item \<Rightarrow> string option" where
  "audit_reason item =
     (let uncollect = get_marker item ''uncollect'';
          marker = (case uncollect of
                      Some m \<Rightarrow> Some m
                    | None \<Rightarrow> get_marker item ''uncollectif'')
      in case marker of
           Some m \<Rightarrow> Some (reason_of m)
         | None \<Rightarrow> None)"

text \<open>\<^verbatim>\<open>"{} - {}\n".format(item.name, reason)\<close>; \<^verbatim>\<open>None\<close> is formatted as \<^verbatim>\<open>None\<close>.\<close>

definition audit_line :: "'v item \<Rightarrow> string" where
  "audit_line item =
     name item @ '' - '' @
     (case audit_reason item of None \<Rightarrow> ''None'' | Some r \<Rightarrow> r) @ [CHR 0x0A]"

text \<open>
  The \<^verbatim>\<open>for\<close> loop of the hook, with its two accumulators: \<open>new_items\<close> and the
  strings written to the file \<open>f\<close> so far (one per \<^verbatim>\<open>f.write\<close>). An exception leaves
  the loop with what has been written.
\<close>

fun collect_loop ::
  "'v item list \<Rightarrow> 'v item list \<Rightarrow> string list \<Rightarrow> py_error option \<times> 'v item list \<times> string list"
where
  "collect_loop [] new_items f = (None, new_items, f)"
| "collect_loop (item # rest) new_items f =
     (case uncollect_condition item of
        Inl e \<Rightarrow> (Some e, new_items, f)
      | Inr excluded \<Rightarrow>
          (if excluded then collect_loop rest new_items (f @ [audit_line item])
           else collect_loop rest (new_items @ [item]) f))"

text \<open>
  The state the hook works on: the list \<open>items\<close> it is given and mutates in place, the
  file \<^verbatim>\<open>uncollected.log\<close> (the strings written to it) and
  \<^verbatim>\<open>store.uncollection_stats\<close>.
\<close>

record 'v session =
  items :: "'v item list"
  uncollected_log :: "string list"
  uncollection_stats :: "string \<rightharpoonup> int"

text \<open>
  \<^verbatim>\<open>pytest_collection_modifyitems(session, config, items)\<close>: the exception that
  leaves it, if any, and the state afterwards. The file is opened with mode
  \<^verbatim>\<open>'w'\<close>, so its old content is gone in any case; the list and the statistics are
  assigned only after the loop.
\<close>

definition pytest_collection_modifyitems ::
  "'v session \<Rightarrow> py_error option \<times> 'v session"
where
  "pytest_collection_modifyitems s =
     (let len_collected = int (length (items s)) in
      case collect_loop (items s) [] [] of
        (Some e, new_items, f) \<Rightarrow> (Some e, s\<lparr>uncollected_log := f\<rparr>)
      | (None, new_items, f) \<Rightarrow>
          (let len_filtered = int (length new_items);
               filtered_count = len_collected - len_filtered
           in (None, \<lparr>items = new_items,
                      uncollected_log = f,
                      uncollection_stats =
                        (uncollection_stats s)(''uncollectif'' \<mapsto> filtered_count)\<rparr>)))"

section \<open>Example items\<close>

text \<open>
  Concrete items, with strings as fixture values, on which the theorems below are
  evaluated. The first predicate is the one of the module's documentation,
  \<^verbatim>\<open>lambda provider_type: provider_type != 'virtualcenter'\<close>; the second is
  \<^verbatim>\<open>lambda foo: False\<close>; the third is
  \<^verbatim>\<open>lambda foo, provider_type: provider_type != 'virtualcenter'\<close>.
\<close>

definition provider_predicate :: "string pyobj" where
  "provider_predicate =
     PyFunction [''provider_type'']
       (\<lambda>argvals. case argvals of
                    [provider_type] \<Rightarrow> Inr (provider_type \<noteq> ''virtualcenter'')
                  | _ \<Rightarrow> Inl TypeError)"

definition never_predicate :: "string pyobj" where
  "never_predicate = PyFunction [''foo''] (\<lambda>argvals. Inr False)"

definition foo_provider_predicate :: "string pyobj" where
  "foo_provider_predicate =
     PyFunction [''foo'', ''provider_type'']
       (\<lambda>argvals. case argvals of
                    [foo, provider_type] \<Rightarrow> Inr (provider_type \<noteq> ''virtualcenter'')
                  | _ \<Rightarrow> Inl TypeError)"

text \<open>No marker at all.\<close>

definition test_plain :: "string item" where
  "test_plain =
     \<lparr>name = ''test_plain'', get_marker = Map.empty, holder = None,
      extract_fixtures_values = Inr Map.empty, funcargnames = []\<rparr>"

text \<open>The documented predicate on \<^verbatim>\<open>provider_type='virtualcenter'\<close>.\<close>

definition test_a :: "string item" where
  "test_a =
     \<lparr>name = ''test_a'',
      get_marker = [''uncollectif'' \<mapsto> MarkDecorator [provider_predicate] Map.empty],
      holder = None,
      extract_fixtures_values = Inr [''provider_type'' \<mapsto> ''virtualcenter''],
      funcargnames = [''provider_type'']\<rparr>"

text \<open>The documented predicate on \<^verbatim>\<open>provider_type='vmware'\<close>, no reason given.\<close>

definition test_x :: "string item" where
  "test_x =
     \<lparr>name = ''test_x'',
      get_marker = [''uncollectif'' \<mapsto> MarkDecorator [provider_predicate] Map.empty],
      holder = None,
      extract_fixtures_values = Inr [''provider_type'' \<mapsto> ''vmware''],
      funcargnames = [''provider_type'']\<rparr>"

text \<open>The same with a reason, the marker in its iterable shape and an appliance held.\<close>

definition test_c :: "string item" where
  "test_c =
     \<lparr>name = ''test_c'',
      get_marker =
        [''uncollectif'' \<mapsto>
           MarkInfo [provider_predicate] [''reason'' \<mapsto> ''flaky on 5.2'']
             [[provider_predicate]]],
      holder = Some ''appliance-1'',
      extract_fixtures_values = Inr [''provider_type'' \<mapsto> ''vmware''],
      funcargnames = [''provider_type'']\<rparr>"

text \<open>
  Both markers, each with its reason; the predicate of the conditional one asks for
  \<^verbatim>\<open>foo\<close>, which nothing provides.
\<close>

definition test_marked :: "string item" where
  "test_marked =
     \<lparr>name = ''test_marked'',
      get_marker =
        [''uncollect'' \<mapsto> MarkDecorator [] [''reason'' \<mapsto> ''not in this release''],
         ''uncollectif'' \<mapsto>
           MarkDecorator [never_predicate] [''reason'' \<mapsto> ''needs foo'']],
      holder = None,
      extract_fixtures_values = Inr [''provider_type'' \<mapsto> ''vmware''],
      funcargnames = [''provider_type'']\<rparr>"



text \<open>The predicate asks for \<^verbatim>\<open>foo\<close>; no fixture values, no appliance holder.\<close>

definition test_e :: "string item" where
  "test_e =
     \<lparr>name = ''test_e'',
      get_marker = [''uncollectif'' \<mapsto> MarkDecorator [never_predicate] Map.empty],
      holder = None,
      extract_fixtures_values = Inr Map.empty,
      funcargnames = [''foo'']\<rparr>"

text \<open>The same item when an appliance holder is registered.\<close>

definition test_e_held :: "string item" where
  "test_e_held =
     \<lparr>name = ''test_e_held'',
      get_marker = [''uncollectif'' \<mapsto> MarkDecorator [never_predicate] Map.empty],
      holder = Some ''appliance-1'',
      extract_fixtures_values = Inr Map.empty,
      funcargnames = [''foo'']\<rparr>"

text \<open>\<^verbatim>\<open>@pytest.mark.uncollectif(True)\<close> and \<^verbatim>\<open>@pytest.mark.uncollectif(False)\<close>.\<close>

definition test_literal_true :: "string item" where
  "test_literal_true =
     \<lparr>name = ''test_literal_true'',
      get_marker = [''uncollectif'' \<mapsto> MarkDecorator [PyValue True] Map.empty],
      holder = None,
      extract_fixtures_values = Inr Map.empty,
      funcargnames = []\<rparr>"

definition test_literal_false :: "string item" where
  "test_literal_false =
     \<lparr>name = ''test_literal_false'',
      get_marker = [''uncollectif'' \<mapsto> MarkDecorator [PyValue False] Map.empty],
      holder = None,
      extract_fixtures_values = Inr Map.empty,
      funcargnames = []\<rparr>"

text \<open>A session whose pass completes, with an old log and another filter's counter.\<close>

definition example_session :: "string session" where
  "example_session =
     \<lparr>items = [test_a, test_x, test_plain, test_c, test_marked, test_e,
               test_literal_true, test_literal_false],
      uncollected_log = [''old content''],
      uncollection_stats = [''other_filter'' \<mapsto> 7]\<rparr>"

definition example_session_after :: "string session" where
  "example_session_after =
     \<lparr>items = [test_a, test_plain, test_literal_false],
      uncollected_log =
        [''test_x - No reason given'' @ [CHR 0x0A],
         ''test_c - flaky on 5.2'' @ [CHR 0x0A],
         ''test_marked - not in this release'' @ [CHR 0x0A],
         ''test_e - No reason given'' @ [CHR 0x0A],
         ''test_literal_true - No reason given'' @ [CHR 0x0A]],
      uncollection_stats = [''other_filter'' \<mapsto> 7, ''uncollectif'' \<mapsto> 5]\<rparr>"

section \<open>The examples evaluated\<close>

lemmas evaluator_defs =
  uncollectif_def uncollect_condition_def declared_arg_names_def bind_args_def
  global_vars_def key_error_handler_def audit_line_def audit_reason_def reason_of_def

lemmas predicate_defs = provider_predicate_def never_predicate_def foo_provider_predicate_def

lemma condition_test_plain: "uncollect_condition test_plain = Inr False"
  by (simp add: evaluator_defs test_plain_def)

lemma condition_test_a: "uncollect_condition test_a = Inr False"
  by (simp add: evaluator_defs predicate_defs test_a_def)

lemma condition_test_x: "uncollect_condition test_x = Inr True"
  by (simp add: evaluator_defs predicate_defs test_x_def)

lemma condition_test_c: "uncollect_condition test_c = Inr True"
  by (simp add: evaluator_defs predicate_defs test_c_def)

lemma condition_test_marked: "uncollect_condition test_marked = Inr True"
  by (simp add: evaluator_defs predicate_defs test_marked_def)

lemma uncollectif_test_marked:
  "uncollectif test_marked = Inl (FixtureNotInPrototype ''test_marked'' {''foo''})"
  by (simp add: evaluator_defs predicate_defs test_marked_def)



lemma uncollectif_test_e: "uncollectif test_e = Inr None"
  by (simp add: evaluator_defs predicate_defs test_e_def)

lemma condition_test_e: "uncollect_condition test_e = Inr True"
  by (simp add: evaluator_defs predicate_defs test_e_def)

lemma uncollectif_test_e_held: "uncollectif test_e_held = Inl (FixtureNotReady ''test_e_held'')"
  by (simp add: evaluator_defs predicate_defs test_e_held_def)

lemma condition_test_literal_true: "uncollect_condition test_literal_true = Inr True"
  by (simp add: evaluator_defs test_literal_true_def)

lemma condition_test_literal_false: "uncollect_condition test_literal_false = Inr False"
  by (simp add: evaluator_defs test_literal_false_def)

lemmas example_conditions =
  condition_test_plain condition_test_a condition_test_x condition_test_c
  condition_test_marked condition_test_e condition_test_literal_true
  condition_test_literal_false

lemma audit_line_test_x: "audit_line test_x = ''test_x - No reason given'' @ [CHR 0x0A]"
  by (simp add: evaluator_defs test_x_def)

lemma audit_line_test_c: "audit_line test_c = ''test_c - flaky on 5.2'' @ [CHR 0x0A]"
  by (simp add: evaluator_defs test_c_def)

lemma audit_line_test_marked:
  "audit_line test_marked = ''test_marked - not in this release'' @ [CHR 0x0A]"
  by (simp add: evaluator_defs test_marked_def)

lemma audit_line_test_e: "audit_line test_e = ''test_e - No reason given'' @ [CHR 0x0A]"
  by (simp add: evaluator_defs test_e_def)

lemma audit_line_test_literal_true:
  "audit_line test_literal_true = ''test_literal_true - No reason given'' @ [CHR 0x0A]"
  by (simp add: evaluator_defs test_literal_true_def)

lemmas example_lines =
  audit_line_test_x audit_line_test_c audit_line_test_marked audit_line_test_e
  audit_line_test_literal_true

lemma example_pass: "pytest_collection_modifyitems example_session = (None, example_session_after)"
  by (simp add: pytest_collection_modifyitems_def example_session_def
      example_session_after_def example_conditions example_lines)



section \<open>The loop and the hook\<close>

lemma collect_loop_None_iff:
  "collect_loop xs new_items f = (None, k, l) \<longleftrightarrow>
     (\<forall>i\<in>set xs. \<exists>b. uncollect_condition i = Inr b) \<and>
     k = new_items @ filter (\<lambda>i. uncollect_condition i = Inr False) xs \<and>
     l = f @ map audit_line (filter (\<lambda>i. uncollect_condition i = Inr True) xs)"
proof (induction xs arbitrary: new_items f)
  case Nil
  then show ?case by auto
next
  case (Cons item rest)
  show ?case
  proof (cases "uncollect_condition item")
    case (Inl e)
    then show ?thesis by simp
  next
    case (Inr excluded)
    then show ?thesis using Cons.IH by (cases excluded) auto
  qed
qed

lemma collect_loop_Some:
  "collect_loop xs new_items f = (Some e, k, l) \<Longrightarrow>
     \<exists>i\<in>set xs. uncollect_condition i = Inl e"
proof (induction xs arbitrary: new_items f)
  case Nil
  then show ?case by simp
next
  case (Cons item rest)
  then show ?case
    by (cases "uncollect_condition item") (auto split: if_splits)
qed

lemma modifyitems_None_iff:
  "pytest_collection_modifyitems s = (None, s') \<longleftrightarrow>
     (\<forall>i\<in>set (items s). \<exists>b. uncollect_condition i = Inr b) \<and>
     s' = \<lparr>items = filter (\<lambda>i. uncollect_condition i = Inr False) (items s),
           uncollected_log =
             map audit_line (filter (\<lambda>i. uncollect_condition i = Inr True) (items s)),
           uncollection_stats =
             (uncollection_stats s)(''uncollectif'' \<mapsto>
                int (length (items s)) -
                int (length (filter (\<lambda>i. uncollect_condition i = Inr False) (items s))))\<rparr>"
proof (cases "collect_loop (items s) [] []")
  case (fields err new_items f)
  show ?thesis
  proof (cases err)
    case None
    with fields show ?thesis
      using collect_loop_None_iff [of "items s" "[]" "[]" new_items f]
      by (auto simp: pytest_collection_modifyitems_def Let_def)
  next
    case (Some e)
    with fields show ?thesis
      using collect_loop_None_iff [of "items s" "[]" "[]"]
      by (auto simp: pytest_collection_modifyitems_def Let_def)
  qed
qed

lemma modifyitems_error_items:
  "fst (pytest_collection_modifyitems s) = Some e \<Longrightarrow>
     items (snd (pytest_collection_modifyitems s)) = items s"
  by (cases "collect_loop (items s) [] []")
     (auto simp: pytest_collection_modifyitems_def Let_def split: option.splits)





lemma lookup_all_empty:
  "names \<noteq> [] \<Longrightarrow> lookup_all Map.empty names = Inl KeyError"
  by (cases names) auto

lemma index0_Inr_iff: "index0 xs = Inr x \<longleftrightarrow> (\<exists>rest. xs = x # rest)"
  by (cases xs) auto

lemma index0_Inl: "index0 xs = Inl e \<Longrightarrow> xs = []"
  by (cases xs) auto

text \<open>What the evaluator returns is false exactly in three cases.\<close>

lemma uncollectif_falsy_iff:
  assumes "uncollectif i = Inr r"
  shows "\<not> truthy r \<longleftrightarrow>
     (\<exists>m. get_marker i ''uncollectif'' = Some m \<and>
        ((\<exists>a rest. declared_arg_names m = Inl TypeError \<and> marker_args m = a # rest \<and>
            py_bool a) \<or>
         (\<exists>names fv. declared_arg_names m = Inr names \<and> names \<noteq> [] \<and>
            extract_fixtures_values i = Inr fv \<and> fv ++ global_vars i = Map.empty) \<or>
         (\<exists>names fv argvals p rest. declared_arg_names m = Inr names \<and>
            extract_fixtures_values i = Inr fv \<and>
            lookup_all (fv ++ global_vars i) names = Inr argvals \<and>
            marker_args m = p # rest \<and> py_call p argvals = Inr True)))"
proof (cases "get_marker i ''uncollectif''")
  case None
  with assms show ?thesis by (auto simp: uncollectif_def)
next
  case (Some m)
  show ?thesis
  proof (cases "declared_arg_names m")
    case (Inl e)
    with Some assms show ?thesis
      by (auto simp: uncollectif_def index0_Inr_iff split: if_splits sum.splits)
  next
    case (Inr names)
    show ?thesis
    proof (cases "extract_fixtures_values i")
      case (Inl e)
      with Some Inr assms show ?thesis
        by (auto simp: uncollectif_def bind_args_def split: if_splits)
    next
      case fv: (Inr fv)
      show ?thesis
      proof (cases "names \<noteq> [] \<and> fv ++ global_vars i = Map.empty")
        case True
        then have "bind_args i names = Inr None"
          using fv by (simp add: bind_args_def)
        with Some Inr assms have "r = None" by (simp add: uncollectif_def)
        with Some Inr fv True show ?thesis by auto
      next
        case False
        then have b: "bind_args i names =
            (case lookup_all (fv ++ global_vars i) names of
               Inl e \<Rightarrow> Inl e | Inr argvals \<Rightarrow> Inr (Some argvals))"
          using fv by (auto simp: bind_args_def Let_def)
        show ?thesis
        proof (cases "lookup_all (fv ++ global_vars i) names")
          case (Inl e)
          with b Some Inr assms show ?thesis
            by (auto simp: uncollectif_def split: if_splits)
        next
          case args: (Inr argvals)
          with b have "bind_args i names = Inr (Some argvals)" by simp
          with Some Inr assms fv args False show ?thesis
            by (auto simp: uncollectif_def index0_Inr_iff split: sum.splits)
        qed
      qed
    qed
  qed
qed

lemma excluded_has_marker:
  assumes "uncollect_condition i = Inr True"
  shows "get_marker i ''uncollect'' \<noteq> None \<or> get_marker i ''uncollectif'' \<noteq> None"
proof (cases "get_marker i ''uncollect''")
  case (Some u)
  then show ?thesis by simp
next
  case None
  show ?thesis
  proof (cases "get_marker i ''uncollectif''")
    case (Some c)
    then show ?thesis by simp
  next
    case cn: None
    with None have "uncollect_condition i = Inr False"
      by (simp add: uncollect_condition_def uncollectif_def)
    with assms show ?thesis by simp
  qed
qed

lemma audit_line_excluded:
  assumes "uncollect_condition i = Inr True"
  shows "audit_line i =
     name i @ '' - '' @
     (case get_marker i ''uncollect'' of
        Some u \<Rightarrow> (case marker_kwargs u ''reason'' of
                     Some r \<Rightarrow> r | None \<Rightarrow> ''No reason given'')
      | None \<Rightarrow>
          (case get_marker i ''uncollectif'' of
             Some c \<Rightarrow> (case marker_kwargs c ''reason'' of
                          Some r \<Rightarrow> r | None \<Rightarrow> ''No reason given'')
           | None \<Rightarrow> ''No reason given'')) @ [CHR 0x0A]"
  using excluded_has_marker [OF assms]
  by (auto simp: audit_line_def audit_reason_def reason_of_def split: option.splits)

lemma excluded_iff_not_kept:
  assumes "pytest_collection_modifyitems s = (None, s')" and "i \<in> set (items s)"
  shows "i \<notin> set (items s') \<longleftrightarrow> uncollect_condition i = Inr True"
proof -
  from assms obtain b where b: "uncollect_condition i = Inr b"
    by (auto simp: modifyitems_None_iff)
  from assms(1) have "items s' = filter (\<lambda>i. uncollect_condition i = Inr False) (items s)"
    by (simp add: modifyitems_None_iff)
  with assms(2) b show ?thesis by auto
qed

lemma condition_total_cases:
  assumes "uncollect_condition i = Inr b"
  shows "get_marker i ''uncollect'' \<noteq> None \<or> (\<exists>r. uncollectif i = Inr r)"
proof (cases "get_marker i ''uncollect''")
  case None
  with assms show ?thesis
    by (cases "uncollectif i") (auto simp: uncollect_condition_def)
next
  case (Some u)
  then show ?thesis by simp
qed




section \<open>Extraction of the predicate\<close>

text \<open>
  C9. The predicate-extraction function accepts both payload shapes: given a marker
  decorator it returns that marker's first positional argument, and given a collection
  of marker-like objects it returns the first positional argument of the first object
  of the collection.
\<close>

theorem get_uncollect_function_both_shapes:
  "get_uncollect_function (MarkDecorator (p # more_args) kw) = Inr p \<and>
   get_uncollect_function (MarkInfo combined_args kw ((p # more_args) # more_marks)) = Inr p"
  by simp

section \<open>Order, idempotence and the exclusion count\<close>

text \<open>
  C5. For every input item list, the items left in the list after the pass stand in the
  order they had in the input: the list afterwards is a subsequence of the list before,
  and it is the input filtered by membership in itself (when the pass raises, the list is
  left as it was).
\<close>

theorem order_preserved:
  "subseq (items (snd (pytest_collection_modifyitems s))) (items s) \<and>
   items (snd (pytest_collection_modifyitems s)) =
     filter (\<lambda>i. i \<in> set (items (snd (pytest_collection_modifyitems s)))) (items s)"
proof (cases "pytest_collection_modifyitems s")
  case (Pair err s')
  show ?thesis
  proof (cases err)
    case None
    with Pair have "pytest_collection_modifyitems s = (None, s')" by simp
    then have its: "items s' = filter (\<lambda>i. uncollect_condition i = Inr False) (items s)"
      by (simp add: modifyitems_None_iff)
    have "filter (\<lambda>i. i \<in> set (items s')) (items s) =
          filter (\<lambda>i. uncollect_condition i = Inr False) (items s)"
      unfolding its by (rule filter_cong) auto
    with its Pair show ?thesis by simp
  next
    case (Some e)
    with Pair have "items s' = items s"
      using modifyitems_error_items [of s e] by simp
    with Pair show ?thesis by (simp add: filter_id_conv)
  qed
qed

theorem order_preserved_witness:
  "subseq [test_a, test_plain, test_literal_false] (items example_session) \<and>
   items (snd (pytest_collection_modifyitems example_session)) =
     [test_a, test_plain, test_literal_false]"
  using order_preserved [of example_session]
  by (simp add: example_pass example_session_after_def)

text \<open>
  C6. The filter is idempotent: when a pass over a list completes, a second pass over
  the list it left completes too, leaves that list as it is, writes nothing to the log
  and records the count 0.
\<close>

theorem filter_idempotent:
  assumes "pytest_collection_modifyitems s = (None, s')"
  shows "pytest_collection_modifyitems s' =
           (None, s'\<lparr>uncollected_log := [],
                     uncollection_stats := (uncollection_stats s')(''uncollectif'' \<mapsto> 0)\<rparr>)"
proof -
  let ?keep = "\<lambda>i. uncollect_condition i = Inr False"
  from assms have its: "items s' = filter ?keep (items s)"
    by (simp add: modifyitems_None_iff)
  have all: "\<forall>i\<in>set (items s'). uncollect_condition i = Inr False"
    by (simp add: its)
  then have keep: "filter ?keep (items s') = items s'"
    by (simp add: filter_id_conv)
  from all have drop: "filter (\<lambda>i. uncollect_condition i = Inr True) (items s') = []"
    by (simp add: filter_empty_conv)
  from all have tot: "\<forall>i\<in>set (items s'). \<exists>b. uncollect_condition i = Inr b"
    by blast
  show ?thesis
    unfolding modifyitems_None_iff using tot keep drop by simp
qed

theorem filter_idempotent_witness:
  "pytest_collection_modifyitems example_session = (None, example_session_after) \<and>
   pytest_collection_modifyitems example_session_after =
     (None, \<lparr>items = [test_a, test_plain, test_literal_false],
             uncollected_log = [],
             uncollection_stats = [''other_filter'' \<mapsto> 7, ''uncollectif'' \<mapsto> 0]\<rparr>)"
  using filter_idempotent [OF example_pass] example_pass
  by (simp add: example_session_after_def)




section \<open>The audit log\<close>

text \<open>
  C8. After a pass that completes, the log holds exactly one line per excluded item, in
  the order of the input, of the form \<^verbatim>\<open><name> - <reason>\<close> followed by a newline. The
  reason is the one of the \<^verbatim>\<open>uncollect\<close> marker when the item carries that marker
  (whatever the \<^verbatim>\<open>uncollectif\<close> marker says), otherwise the one of the
  \<^verbatim>\<open>uncollectif\<close> marker; the reason of a marker is its \<^verbatim>\<open>reason\<close> keyword, and
  \<^verbatim>\<open>No reason given\<close> when it has none.
\<close>

theorem audit_lines:
  assumes "pytest_collection_modifyitems s = (None, s')"
  shows "uncollected_log s' =
     map (\<lambda>i. name i @ '' - '' @
            (case get_marker i ''uncollect'' of
               Some u \<Rightarrow> (case marker_kwargs u ''reason'' of
                            Some r \<Rightarrow> r | None \<Rightarrow> ''No reason given'')
             | None \<Rightarrow>
                 (case get_marker i ''uncollectif'' of
                    Some c \<Rightarrow> (case marker_kwargs c ''reason'' of
                                 Some r \<Rightarrow> r | None \<Rightarrow> ''No reason given'')
                  | None \<Rightarrow> ''No reason given'')) @ [CHR 0x0A])
         (filter (\<lambda>i. i \<notin> set (items s')) (items s))"
proof -
  have f: "filter (\<lambda>i. i \<notin> set (items s')) (items s) =
           filter (\<lambda>i. uncollect_condition i = Inr True) (items s)"
    by (rule filter_cong) (auto simp: excluded_iff_not_kept [OF assms])
  from assms have "uncollected_log s' =
      map audit_line (filter (\<lambda>i. uncollect_condition i = Inr True) (items s))"
    by (simp add: modifyitems_None_iff)
  also have "\<dots> = map (\<lambda>i. name i @ '' - '' @
            (case get_marker i ''uncollect'' of
               Some u \<Rightarrow> (case marker_kwargs u ''reason'' of
                            Some r \<Rightarrow> r | None \<Rightarrow> ''No reason given'')
             | None \<Rightarrow>
                 (case get_marker i ''uncollectif'' of
                    Some c \<Rightarrow> (case marker_kwargs c ''reason'' of
                                 Some r \<Rightarrow> r | None \<Rightarrow> ''No reason given'')
                  | None \<Rightarrow> ''No reason given'')) @ [CHR 0x0A])
         (filter (\<lambda>i. uncollect_condition i = Inr True) (items s))"
    by (rule map_cong) (auto simp: audit_line_excluded)
  finally show ?thesis by (simp add: f)
qed

theorem audit_lines_witness:
  "pytest_collection_modifyitems example_session = (None, example_session_after) \<and>
   uncollected_log example_session_after =
     [''test_x - No reason given'' @ [CHR 0x0A],
      ''test_c - flaky on 5.2'' @ [CHR 0x0A],
      ''test_marked - not in this release'' @ [CHR 0x0A],
      ''test_e - No reason given'' @ [CHR 0x0A],
      ''test_literal_true - No reason given'' @ [CHR 0x0A]] \<and>
   filter (\<lambda>i. i \<notin> set (items example_session_after)) (items example_session) =
     [test_x, test_c, test_marked, test_e, test_literal_true]"
  using audit_lines [OF example_pass] example_pass
    excluded_iff_not_kept [OF example_pass]
  by (simp add: example_session_after_def example_session_def example_conditions)

section \<open>The unconditional marker short-circuits the evaluator\<close>

text \<open>
  C10. An item carrying the \<^verbatim>\<open>uncollect\<close> marker is excluded without its conditional
  predicate being looked at: the condition of the loop is true for it whatever
  \<^verbatim>\<open>uncollectif\<close> would return or raise, so a pass in which every other item is evaluated
  without an exception completes, and every item carrying the marker is excluded.
\<close>

theorem uncollect_marker_short_circuits:
  assumes "\<forall>i\<in>set (items s). get_marker i ''uncollect'' \<noteq> None \<or> (\<exists>r. uncollectif i = Inr r)"
  shows "fst (pytest_collection_modifyitems s) = None \<and>
         (\<forall>i\<in>set (items s). get_marker i ''uncollect'' \<noteq> None \<longrightarrow>
            uncollect_condition i = Inr True \<and>
            i \<notin> set (items (snd (pytest_collection_modifyitems s))))"
proof -
  have tot: "\<forall>i\<in>set (items s). \<exists>b. uncollect_condition i = Inr b"
  proof
    fix i assume "i \<in> set (items s)"
    with assms have "get_marker i ''uncollect'' \<noteq> None \<or> (\<exists>r. uncollectif i = Inr r)"
      by blast
    then show "\<exists>b. uncollect_condition i = Inr b"
      by (auto simp: uncollect_condition_def split: option.splits)
  qed
  then obtain s' where run: "pytest_collection_modifyitems s = (None, s')"
    by (simp add: modifyitems_None_iff)
  have "\<forall>i\<in>set (items s). get_marker i ''uncollect'' \<noteq> None \<longrightarrow>
          uncollect_condition i = Inr True \<and> i \<notin> set (items s')"
  proof (intro ballI impI)
    fix i assume i: "i \<in> set (items s)" and m: "get_marker i ''uncollect'' \<noteq> None"
    from m have c: "uncollect_condition i = Inr True"
      by (auto simp: uncollect_condition_def)
    with excluded_iff_not_kept [OF run i]
    show "uncollect_condition i = Inr True \<and> i \<notin> set (items s')" by simp
  qed
  with run show ?thesis by simp
qed

theorem uncollect_marker_short_circuits_witness:
  "uncollectif test_marked = Inl (FixtureNotInPrototype ''test_marked'' {''foo''}) \<and>
   get_marker test_marked ''uncollect'' \<noteq> None \<and>
   fst (pytest_collection_modifyitems example_session) = None \<and>
   uncollect_condition test_marked = Inr True \<and>
   test_marked \<notin> set (items (snd (pytest_collection_modifyitems example_session)))"
proof -
  have pre: "\<forall>i\<in>set (items example_session).
      get_marker i ''uncollect'' \<noteq> None \<or> (\<exists>r. uncollectif i = Inr r)"
  proof
    fix i assume "i \<in> set (items example_session)"
    with example_pass obtain b where "uncollect_condition i = Inr b"
      by (auto simp: modifyitems_None_iff)
    then show "get_marker i ''uncollect'' \<noteq> None \<or> (\<exists>r. uncollectif i = Inr r)"
      by (rule condition_total_cases)
  qed
  have m: "get_marker test_marked ''uncollect'' \<noteq> None"
    by (simp add: test_marked_def)
  have "test_marked \<in> set (items example_session)"
    by (simp add: example_session_def)
  with uncollect_marker_short_circuits [OF pre] m uncollectif_test_marked
  show ?thesis by blast
qed

section \<open>The exclusion decision\<close>

text \<open>
  C1, as the code has it. In a pass that completes, an item is excluded if and only if
  it carries the \<^verbatim>\<open>uncollect\<close> marker, or it carries the \<^verbatim>\<open>uncollectif\<close> marker and
  one of three things holds: the predicate is not a plain function and the marker's first
  argument is true; or the predicate declares at least one parameter and the fixture
  values together with the global values are empty (the predicate is then never called);
  or the predicate, called with the values of its declared parameters, returns a true
  value. An item with neither marker is always kept.
\<close>

theorem exclusion_decision:
  assumes "pytest_collection_modifyitems s = (None, s')" and "i \<in> set (items s)"
  shows "(i \<notin> set (items s') \<longleftrightarrow>
            get_marker i ''uncollect'' \<noteq> None \<or>
            (\<exists>m. get_marker i ''uncollectif'' = Some m \<and>
               ((\<exists>a rest. declared_arg_names m = Inl TypeError \<and>
                    marker_args m = a # rest \<and> py_bool a) \<or>
                (\<exists>names fv. declared_arg_names m = Inr names \<and> names \<noteq> [] \<and>
                    extract_fixtures_values i = Inr fv \<and>
                    fv ++ global_vars i = Map.empty) \<or>
                (\<exists>names fv argvals p rest. declared_arg_names m = Inr names \<and>
                    extract_fixtures_values i = Inr fv \<and>
                    lookup_all (fv ++ global_vars i) names = Inr argvals \<and>
                    marker_args m = p # rest \<and> py_call p argvals = Inr True)))) \<and>
         (get_marker i ''uncollect'' = None \<and> get_marker i ''uncollectif'' = None \<longrightarrow>
            i \<in> set (items s'))"
proof (cases "get_marker i ''uncollect''")
  case (Some u)
  then have "uncollect_condition i = Inr True"
    by (simp add: uncollect_condition_def)
  with excluded_iff_not_kept [OF assms] Some show ?thesis by simp
next
  case None
  from assms obtain b where b: "uncollect_condition i = Inr b"
    by (auto simp: modifyitems_None_iff)
  with None obtain r where r: "uncollectif i = Inr r"
    using condition_total_cases [OF b] by auto
  with None have c: "uncollect_condition i = Inr (\<not> truthy r)"
    by (simp add: uncollect_condition_def)
  have neither: "get_marker i ''uncollectif'' = None \<Longrightarrow> truthy r"
    using r by (auto simp: uncollectif_def)
  from c excluded_iff_not_kept [OF assms]
  have "i \<notin> set (items s') \<longleftrightarrow> \<not> truthy r" by simp
  with uncollectif_falsy_iff [OF r] None neither show ?thesis by auto
qed

theorem exclusion_decision_witness:
  "pytest_collection_modifyitems example_session = (None, example_session_after) \<and>
   test_e \<in> set (items example_session) \<and>
   test_e \<notin> set (items example_session_after) \<and>
   get_marker test_e ''uncollect'' = None \<and>
   test_plain \<in> set (items example_session) \<and>
   test_plain \<in> set (items example_session_after)"
proof -
  have e: "test_e \<in> set (items example_session)"
    and p: "test_plain \<in> set (items example_session)"
    by (simp_all add: example_session_def)
  have n: "get_marker test_plain ''uncollect'' = None \<and>
           get_marker test_plain ''uncollectif'' = None"
    by (simp add: test_plain_def)
  have m: "get_marker test_e ''uncollect'' = None"
    by (simp add: test_e_def)
  have x: "test_e \<notin> set (items example_session_after)"
    using excluded_iff_not_kept [OF example_pass e] condition_test_e by simp
  from exclusion_decision [OF example_pass p] n
  have "test_plain \<in> set (items example_session_after)" by blast
  with example_pass e p m x show ?thesis by simp
qed

text \<open>
  The claim as stated (excluded if and only if the item carries the \<^verbatim>\<open>uncollect\<close>
  marker or its predicate evaluates truthy) fails on \<open>test_e\<close>: it has no
  \<^verbatim>\<open>uncollect\<close> marker, its predicate \<^verbatim>\<open>lambda foo: False\<close> returns a true value on
  no arguments at all, and the pass excludes it.
\<close>

theorem exclusion_decision_counterexample:
  "pytest_collection_modifyitems
     \<lparr>items = [test_e], uncollected_log = [], uncollection_stats = Map.empty\<rparr> =
     (None, \<lparr>items = [],
             uncollected_log = [''test_e - No reason given'' @ [CHR 0x0A]],
             uncollection_stats = [''uncollectif'' \<mapsto> 1]\<rparr>) \<and>
   get_marker test_e ''uncollect'' = None \<and>
   get_marker test_e ''uncollectif'' = Some (MarkDecorator [never_predicate] Map.empty) \<and>
   \<not> (\<exists>argvals. py_call never_predicate argvals = Inr True)"
  by (simp add: pytest_collection_modifyitems_def condition_test_e audit_line_test_e)
     (simp add: test_e_def never_predicate_def)

section \<open>Parameters that cannot be bound\<close>




section \<open>The empty context\<close>

text \<open>
  C3, as the code has it. When the predicate of an item declares at least one parameter,
  the fixture values of the item are empty and no appliance holder is registered, the
  evaluator raises nothing and returns \<^verbatim>\<open>None\<close>; the hook then excludes the item, and
  the line it writes has the usual reason: the one of the \<^verbatim>\<open>uncollect\<close> marker when the
  item carries it, otherwise the one of the \<^verbatim>\<open>uncollectif\<close> marker.
\<close>

theorem empty_context_excluded:
  assumes "get_marker i ''uncollectif'' = Some m"
    and "declared_arg_names m = Inr names"
    and "names \<noteq> []"
    and "extract_fixtures_values i = Inr Map.empty"
    and "holder i = None"
  shows "uncollectif i = Inr None \<and>
         uncollect_condition i = Inr True \<and>
         audit_line i =
           name i @ '' - '' @
           (case get_marker i ''uncollect'' of
              Some u \<Rightarrow> reason_of u
            | None \<Rightarrow> reason_of m) @ [CHR 0x0A] \<and>
         (\<forall>s s'. pytest_collection_modifyitems s = (None, s') \<and> i \<in> set (items s) \<longrightarrow>
            i \<notin> set (items s')) \<and>
         (\<forall>s. items s = [i] \<longrightarrow> fst (pytest_collection_modifyitems s) = None)"
proof -
  from assms(3,4,5) have "bind_args i names = Inr None"
    by (simp add: bind_args_def global_vars_def)
  with assms(1,2) have u: "uncollectif i = Inr None"
    by (simp add: uncollectif_def)
  then have c: "uncollect_condition i = Inr True"
    by (simp add: uncollect_condition_def split: option.splits)
  have l: "audit_line i =
           name i @ '' - '' @
           (case get_marker i ''uncollect'' of
              Some u \<Rightarrow> reason_of u
            | None \<Rightarrow> reason_of m) @ [CHR 0x0A]"
    using assms(1) by (simp add: audit_line_def audit_reason_def split: option.splits)
  have k: "i \<notin> set (items s')"
    if "pytest_collection_modifyitems s = (None, s')" and "i \<in> set (items s)" for s s'
    using excluded_iff_not_kept [OF that] c by simp
  have o: "fst (pytest_collection_modifyitems s) = None" if "items s = [i]" for s
    using that c by (simp add: pytest_collection_modifyitems_def)
  from u c l k o show ?thesis by blast
qed

theorem empty_context_excluded_witness:
  "get_marker test_e ''uncollectif'' = Some (MarkDecorator [never_predicate] Map.empty) \<and>
   declared_arg_names (MarkDecorator [never_predicate] Map.empty) = Inr [''foo''] \<and>
   extract_fixtures_values test_e = Inr Map.empty \<and>
   holder test_e = None \<and>
   uncollectif test_e = Inr None \<and>
   uncollect_condition test_e = Inr True \<and>
   audit_line test_e = ''test_e - No reason given'' @ [CHR 0x0A] \<and>
   test_e \<notin> set (items example_session_after)"
proof -
  let ?m = "MarkDecorator [never_predicate] Map.empty :: string marker"
  have h1: "get_marker test_e ''uncollectif'' = Some ?m"
    and h4: "extract_fixtures_values test_e = Inr Map.empty"
    and h5: "holder test_e = None"
    by (simp_all add: test_e_def)
  have h2: "declared_arg_names ?m = Inr [''foo'']"
    by (simp add: declared_arg_names_def never_predicate_def)
  have h3: "[''foo''] \<noteq> []" by simp
  have e: "test_e \<in> set (items example_session)"
    by (simp add: example_session_def)
  from empty_context_excluded [OF h1 h2 h3 h4 h5] example_pass e
  have "uncollectif test_e = Inr None \<and> uncollect_condition test_e = Inr True \<and>
        test_e \<notin> set (items example_session_after)"
    by blast
  with h1 h2 h4 h5 audit_line_test_e show ?thesis by simp
qed

text \<open>
  The claim as stated (empty fixture values alone) fails on \<open>test_e_held\<close>: its fixture
  values are empty, but an appliance holder is registered, so the values the evaluator
  looks at hold \<^verbatim>\<open>appliance\<close>, and binding \<^verbatim>\<open>foo\<close> raises.
\<close>

theorem empty_context_excluded_counterexample:
  "get_marker test_e_held ''uncollect'' = None \<and>
   get_marker test_e_held ''uncollectif'' =
     Some (MarkDecorator [never_predicate] Map.empty) \<and>
   declared_arg_names (MarkDecorator [never_predicate] Map.empty) = Inr [''foo''] \<and>
   extract_fixtures_values test_e_held = Inr Map.empty \<and>
   uncollectif test_e_held = Inl (FixtureNotReady ''test_e_held'') \<and>
   fst (pytest_collection_modifyitems
          \<lparr>items = [test_e_held], uncollected_log = [],
           uncollection_stats = Map.empty\<rparr>) = Some (FixtureNotReady ''test_e_held'')"
proof -
  have n: "get_marker test_e_held ''uncollect'' = None"
    by (simp add: test_e_held_def)
  have c: "uncollect_condition test_e_held = Inl (FixtureNotReady ''test_e_held'')"
    by (simp add: uncollect_condition_def n uncollectif_test_e_held)
  have "fst (pytest_collection_modifyitems
          \<lparr>items = [test_e_held], uncollected_log = [],
           uncollection_stats = Map.empty\<rparr>) = Some (FixtureNotReady ''test_e_held'')"
    by (simp add: pytest_collection_modifyitems_def c)
  then show ?thesis
    by (simp add: uncollectif_test_e_held)
       (simp add: test_e_held_def declared_arg_names_def never_predicate_def)
qed

section \<open>Predicates that are not plain functions\<close>

text \<open>
  C4, as the code has it. When the predicate of an item cannot be introspected as a plain
  function, the evaluator returns the negation of the truth value of the marker's first
  positional argument. What it returns says whether to keep the item, so the item (when
  it does not carry the \<^verbatim>\<open>uncollect\<close> marker) is excluded if and only if that argument
  is true.
\<close>

theorem literal_fallback:
  assumes "get_marker i ''uncollectif'' = Some m"
    and "declared_arg_names m = Inl TypeError"
    and "marker_args m = a # rest"
  shows "uncollectif i = Inr (Some (\<not> py_bool a)) \<and>
         (get_marker i ''uncollect'' = None \<longrightarrow>
            uncollect_condition i = Inr (py_bool a) \<and>
            (\<forall>s s'. pytest_collection_modifyitems s = (None, s') \<and> i \<in> set (items s) \<longrightarrow>
               (i \<notin> set (items s') \<longleftrightarrow> py_bool a)))"
proof -
  from assms have u: "uncollectif i = Inr (Some (\<not> py_bool a))"
    by (simp add: uncollectif_def)
  have c: "uncollect_condition i = Inr (py_bool a)" if "get_marker i ''uncollect'' = None"
    using that u by (simp add: uncollect_condition_def)
  have k: "i \<notin> set (items s') \<longleftrightarrow> py_bool a"
    if "get_marker i ''uncollect'' = None"
      and "pytest_collection_modifyitems s = (None, s')" and "i \<in> set (items s)" for s s'
    using excluded_iff_not_kept [OF that(2,3)] c [OF that(1)] by simp
  from u c k show ?thesis by blast
qed

theorem literal_fallback_witness:
  "get_marker test_literal_false ''uncollectif'' =
     Some (MarkDecorator [PyValue False] Map.empty) \<and>
   declared_arg_names (MarkDecorator [PyValue False] Map.empty :: string marker) =
     Inl TypeError \<and>
   get_marker test_literal_false ''uncollect'' = None \<and>
   uncollectif test_literal_false = Inr (Some True) \<and>
   uncollect_condition test_literal_false = Inr False \<and>
   test_literal_false \<in> set (items example_session_after)"
proof -
  let ?m = "MarkDecorator [PyValue False] Map.empty :: string marker"
  have h1: "get_marker test_literal_false ''uncollectif'' = Some ?m"
    and h0: "get_marker test_literal_false ''uncollect'' = None"
    by (simp_all add: test_literal_false_def)
  have h2: "declared_arg_names ?m = Inl TypeError"
    by (simp add: declared_arg_names_def)
  have h3: "marker_args ?m = PyValue False # []" by simp
  have e: "test_literal_false \<in> set (items example_session)"
    by (simp add: example_session_def)
  from literal_fallback [OF h1 h2 h3] h0 example_pass e
  have "uncollectif test_literal_false = Inr (Some (\<not> py_bool (PyValue False :: string pyobj))) \<and>
        uncollect_condition test_literal_false = Inr (py_bool (PyValue False :: string pyobj)) \<and>
        (test_literal_false \<notin> set (items example_session_after) \<longleftrightarrow>
           py_bool (PyValue False :: string pyobj))"
    by blast
  with h1 h2 h0 show ?thesis by simp
qed

text \<open>
  The claim as stated (excluded if and only if the argument is false) fails on
  \<open>test_literal_true\<close>, marked \<^verbatim>\<open>uncollectif(True)\<close>: the argument is true, the
  evaluator returns \<^verbatim>\<open>False\<close>, and the hook excludes the item.
\<close>

theorem literal_fallback_counterexample:
  "get_marker test_literal_true ''uncollect'' = None \<and>
   get_marker test_literal_true ''uncollectif'' =
     Some (MarkDecorator [PyValue True] Map.empty) \<and>
   declared_arg_names (MarkDecorator [PyValue True] Map.empty :: string marker) =
     Inl TypeError \<and>
   py_bool (PyValue True :: string pyobj) \<and>
   uncollectif test_literal_true = Inr (Some False) \<and>
   pytest_collection_modifyitems
     \<lparr>items = [test_literal_true], uncollected_log = [],
      uncollection_stats = Map.empty\<rparr> =
     (None, \<lparr>items = [],
             uncollected_log = [''test_literal_true - No reason given'' @ [CHR 0x0A]],
             uncollection_stats = [''uncollectif'' \<mapsto> 1]\<rparr>)"
proof -
  have u: "uncollectif test_literal_true = Inr (Some False)"
    by (simp add: uncollectif_def declared_arg_names_def test_literal_true_def)
  have "pytest_collection_modifyitems
     \<lparr>items = [test_literal_true], uncollected_log = [],
      uncollection_stats = Map.empty\<rparr> =
     (None, \<lparr>items = [],
             uncollected_log = [''test_literal_true - No reason given'' @ [CHR 0x0A]],
             uncollection_stats = [''uncollectif'' \<mapsto> 1]\<rparr>)"
    by (simp add: pytest_collection_modifyitems_def condition_test_literal_true
          audit_line_test_literal_true)
  then show ?thesis
    by (simp add: u) (simp add: test_literal_true_def declared_arg_names_def)
qed

end
